theory Spec2Isabelle
  imports Main "HOL-Library.AList" "HOL-Library.Product_Lexorder"
begin

text \<open>
  A shallow embedding of the three modules of the question-answering chatbot
  (\<open>qa_chain_manager.py\<close>, \<open>document_loader.py\<close>, \<open>vector_store_manager.py\<close>) and the
  properties of them that the specification states. The definitions come first, module by
  module; the properties follow. Code of LangChain, Chroma and the standard library is not
  part of the repository: what the modules call there is a parameter of the model.
\<close>

section \<open>Python values shared by the three modules\<close>

text \<open>
  A Python \<open>str\<close> is a sequence of Unicode code points, and \<open>len\<close>, slicing and
  \<open>strip\<close> count code points. A string is therefore modelled as a list of code points
  (natural numbers); \<open>py\<close> turns an ASCII literal of the source into such a list.
\<close>

type_synonym codepoint = nat
type_synonym pystr = "codepoint list"

definition py :: "string \<Rightarrow> pystr" where
  "py s = map of_char s"

text \<open>
  \<open>str.isspace\<close> on one character, as CPython decides it: the code points
  U+0009..U+000D, U+001C..U+0020, U+0085, U+00A0, U+1680, U+2000..U+200A, U+2028, U+2029,
  U+202F, U+205F and U+3000.
\<close>

definition py_isspace :: "codepoint \<Rightarrow> bool" where
  "py_isspace c \<longleftrightarrow>
     (9 \<le> c \<and> c \<le> 13) \<or> (28 \<le> c \<and> c \<le> 32) \<or> c = 133 \<or> c = 160 \<or> c = 5760 \<or>
     (8192 \<le> c \<and> c \<le> 8202) \<or> c = 8232 \<or> c = 8233 \<or> c = 8239 \<or> c = 8287 \<or> c = 12288"

text \<open>\<open>s.strip()\<close>: leading and trailing whitespace removed.\<close>

definition py_strip :: "pystr \<Rightarrow> pystr" where
  "py_strip s = rev (dropWhile py_isspace (rev (dropWhile py_isspace s)))"

text \<open>
  An exception object, as far as the code looks at it: its class and \<open>str(e)\<close>.
  The outcome of a call is \<open>Inl e\<close> when the call raises \<open>e\<close> and \<open>Inr v\<close> when it
  returns \<open>v\<close>.
\<close>

datatype exn = Exn (exn_class: pystr) (exn_str: pystr)

text \<open>\<open>langchain.schema.Document\<close>: the text and the metadata dict (in insertion order).\<close>

record document =
  page_content :: pystr
  metadata :: "(pystr \<times> pystr) list"


section \<open>qa\_chain\_manager.py\<close>

text \<open>
  The dict the chain returns; a key may be missing (\<open>response.get(key, default)\<close>).
\<close>

record response =
  resp_answer :: "pystr option"
  resp_source_documents :: "document list option"

text \<open>\<open>d.get(key, default)\<close>, given what the dict holds under the key.\<close>

definition py_get :: "'a option \<Rightarrow> 'a \<Rightarrow> 'a" where
  "py_get entry dflt = (case entry of Some v \<Rightarrow> v | None \<Rightarrow> dflt)"

record source_info =
  src_content :: pystr
  src_metadata :: "(pystr \<times> pystr) list"
  source_number :: nat

record conversation_entry =
  entry_timestamp :: pystr
  entry_question :: pystr
  entry_answer :: pystr
  entry_source_count :: nat

text \<open>
  The dict \<open>ask_question\<close> returns. The keys \<open>answer\<close> and \<open>source_documents\<close> are in
  every result; \<open>question\<close>, \<open>timestamp\<close>, \<open>error\<close> and \<open>success\<close> are in some
  (\<open>None\<close> is a missing key).
\<close>

record result =
  res_answer :: pystr
  res_source_documents :: "source_info list"
  res_question :: "pystr option"
  res_timestamp :: "pystr option"
  res_error :: "pystr option"
  res_success :: "bool option"

text \<open>
  The manager. \<open>chain_state\<close> is everything behind \<open>self.qa_chain\<close>: the chain, its
  \<open>ConversationBufferWindowMemory(k=memory_window)\<close>, the retriever and the chat model. That
  code belongs to LangChain, so its state is a type parameter and a call of the chain is a
  parameter \<open>qa_chain\<close> of \<open>ask_question\<close>: from the state and the question to the outcome
  (the response dict, or the exception raised) and the new state. The model name, the
  temperature and \<open>max_tokens\<close> only configure the chat model and are part of that state.
  Calls of the logger are left out of this module's model.
\<close>

record 'c QAChainManager =
  memory_window :: int
  chain_state :: 'c
  conversation_history :: "conversation_entry list"

type_synonym 'c qa_chain = "'c \<Rightarrow> pystr \<Rightarrow> (exn + response) \<times> 'c"

definition QAChainManager_init :: "'c \<Rightarrow> int \<Rightarrow> 'c QAChainManager" where
  "QAChainManager_init chain memory_window' =
     \<lparr>memory_window = memory_window', chain_state = chain, conversation_history = []\<rparr>"

text \<open>
  One round of the loop over \<open>enumerate(source_docs)\<close>:
  \<^verbatim>\<open>doc.page_content[:300] + "..." if len(doc.page_content) > 300 else doc.page_content\<close>
  (the conditional expression binds weaker than \<open>+\<close>).
\<close>

definition source_info_of :: "nat \<Rightarrow> document \<Rightarrow> source_info" where
  "source_info_of i doc =
     \<lparr>src_content =
        (if length (page_content doc) > 300 then take 300 (page_content doc) @ py ''...''
         else page_content doc),
      src_metadata = metadata doc,
      source_number = i + 1\<rparr>"

definition prepare_sources :: "document list \<Rightarrow> source_info list" where
  "prepare_sources source_docs =
     foldl (\<lambda>sources (i, doc). sources @ [source_info_of i doc]) [] (enumerate 0 source_docs)"

definition empty_question_result :: result where
  "empty_question_result =
     \<lparr>res_answer = py ''Please provide a valid question.'',
      res_source_documents = [],
      res_question = None,
      res_timestamp = None,
      res_error = Some (py ''Empty question''),
      res_success = None\<rparr>"

definition error_result :: "exn \<Rightarrow> result" where
  "error_result e =
     \<lparr>res_answer =
        py ''I apologize, but I encountered an error while processing your question: ''
          @ exn_str e,
      res_source_documents = [],
      res_question = None,
      res_timestamp = None,
      res_error = Some (exn_str e),
      res_success = Some False\<rparr>"

text \<open>
  \<open>ask_question\<close>. \<open>now\<close> is what \<open>datetime.now().isoformat()\<close> returns during the call.
  The \<open>try\<close> block is the \<open>case\<close>: the only statement in it that can raise is the call
  of the chain, and the handler turns the exception into \<open>error_result\<close>. The outcome is
  paired with the manager after the call.
\<close>

definition ask_question ::
  "'c qa_chain \<Rightarrow> pystr \<Rightarrow> 'c QAChainManager \<Rightarrow> pystr \<Rightarrow> (exn + result) \<times> 'c QAChainManager"
where
  "ask_question qa_chain now self question =
     (if py_strip question = [] then (Inr empty_question_result, self)
      else
        case qa_chain (chain_state self) question of
          (Inl e, chain') \<Rightarrow> (Inr (error_result e), self\<lparr>chain_state := chain'\<rparr>)
        | (Inr response, chain') \<Rightarrow>
            let answer = py_get (resp_answer response) (py ''No answer generated'');
                source_docs = py_get (resp_source_documents response) [];
                sources = prepare_sources source_docs;
                conversation_entry =
                  \<lparr>entry_timestamp = now,
                   entry_question = question,
                   entry_answer = answer,
                   entry_source_count = length sources\<rparr>
            in (Inr \<lparr>res_answer = answer,
                     res_source_documents = sources,
                     res_question = Some question,
                     res_timestamp = Some (entry_timestamp conversation_entry),
                     res_error = None,
                     res_success = Some True\<rparr>,
                self\<lparr>chain_state := chain',
                     conversation_history := conversation_history self @ [conversation_entry]\<rparr>))"


text \<open>
  A session: the questions put to one manager, one call after the other, each paired with
  the time of its call (as the front end does, one \<open>ask_question\<close> per submitted form).
\<close>

fun ask_questions ::
  "'c qa_chain \<Rightarrow> 'c QAChainManager \<Rightarrow> (pystr \<times> pystr) list
     \<Rightarrow> (exn + result) list \<times> 'c QAChainManager"
where
  "ask_questions qa_chain self [] = ([], self)"
| "ask_questions qa_chain self ((now, question) # rest) =
     (case ask_question qa_chain now self question of
        (outcome, self') \<Rightarrow>
          (case ask_questions qa_chain self' rest of
             (outcomes, self'') \<Rightarrow> (outcome # outcomes, self'')))"

text \<open>
  The turn an outcome stands for in the history: one turn for a result with
  \<open>success = True\<close>, built from the fields of that result, and none otherwise.
\<close>

definition recorded_turn :: "exn + result \<Rightarrow> conversation_entry list" where
  "recorded_turn outcome =
     (case outcome of
        Inl e \<Rightarrow> []
      | Inr r \<Rightarrow>
          (case (res_success r, res_timestamp r, res_question r) of
             (Some True, Some t, Some q) \<Rightarrow>
               [\<lparr>entry_timestamp = t, entry_question = q, entry_answer = res_answer r,
                 entry_source_count = length (res_source_documents r)\<rparr>]
           | _ \<Rightarrow> []))"

text \<open>
  A chain for the examples: it answers every question with \<open>ok\<close> and no source document,
  and has no state.
\<close>

definition steady_chain :: "unit qa_chain" where
  "steady_chain chain question =
     (Inr \<lparr>resp_answer = Some (py ''ok''), resp_source_documents = Some []\<rparr>, chain)"

text \<open>
  A chain whose chat model times out on every call; its state counts the calls. And a
  manager that has answered one question so far.
\<close>

definition timeout_chain :: "nat qa_chain" where
  "timeout_chain calls question =
     (Inl (Exn (py ''TimeoutError'') (py ''Request timed out.'')), Suc calls)"

definition one_turn_manager :: "nat QAChainManager" where
  "one_turn_manager =
     \<lparr>memory_window = 10, chain_state = 0,
      conversation_history =
        [\<lparr>entry_timestamp = py ''t1'', entry_question = py ''what?'',
          entry_answer = py ''this'', entry_source_count = 0\<rparr>]\<rparr>"

text \<open>
  A chain that retrieves two documents, one of 10 characters and one of 301.
\<close>

definition two_docs :: "document list" where
  "two_docs =
     [\<lparr>page_content = py ''short text'', metadata = [(py ''file_name'', py ''a.txt'')]\<rparr>,
      \<lparr>page_content = replicate 301 120, metadata = [(py ''file_name'', py ''b.txt'')]\<rparr>]"

definition two_docs_chain :: "unit qa_chain" where
  "two_docs_chain chain question =
     (Inr \<lparr>resp_answer = Some (py ''ok''), resp_source_documents = Some two_docs\<rparr>, chain)"

definition eleven_questions :: "(pystr \<times> pystr) list" where
  "eleven_questions =
     [(py ''t01'', py ''q01''), (py ''t02'', py ''q02''), (py ''t03'', py ''q03''),
      (py ''t04'', py ''q04''), (py ''t05'', py ''q05''), (py ''t06'', py ''q06''),
      (py ''t07'', py ''q07''), (py ''t08'', py ''q08''), (py ''t09'', py ''q09''),
      (py ''t10'', py ''q10''), (py ''t11'', py ''q11'')]"


subsection \<open>The history as a list object\<close>

text \<open>
  \<open>get_conversation_history\<close> returns \<open>self.conversation_history.copy()\<close>. What a caller
  can do to the manager through the returned list depends on which list object it is, so
  here lists are objects in a heap: a reference is an index into the heap, and
  \<open>list.copy()\<close> allocates a new list object with the same elements. The elements, of
  type \<open>'a\<close>, are the references to the entry dicts: the copy is shallow and holds the
  same ones. \<open>None\<close> stands for a reference to no object, which Python does not have.
\<close>

type_synonym ref = nat
type_synonym 'a list_heap = "'a list list"

record QAChainManager_ref =
  conversation_history_ref :: ref

definition list_copy :: "'a list_heap \<Rightarrow> ref \<Rightarrow> (ref \<times> 'a list_heap) option" where
  "list_copy heap r =
     (if r < length heap then Some (length heap, heap @ [heap ! r]) else None)"

definition get_conversation_history ::
  "'a list_heap \<Rightarrow> QAChainManager_ref \<Rightarrow> (ref \<times> 'a list_heap) option"
where
  "get_conversation_history heap self = list_copy heap (conversation_history_ref self)"

text \<open>
  A mutation of the list object at \<open>r\<close>: the object's elements \<open>xs\<close> become \<open>f xs\<close>.
  \<open>xs.append(x)\<close>, \<open>del xs[i]\<close> (an \<open>IndexError\<close> leaves the list as it is),
  \<open>xs.reverse()\<close> and \<open>xs.clear()\<close> are such mutations; a caller may apply any number
  of them.
\<close>

definition mutate_list :: "'a list_heap \<Rightarrow> ref \<Rightarrow> ('a list \<Rightarrow> 'a list) \<Rightarrow> 'a list_heap" where
  "mutate_list heap r f = heap[r := f (heap ! r)]"

definition list_append :: "'a \<Rightarrow> 'a list \<Rightarrow> 'a list" where
  "list_append x xs = xs @ [x]"

definition list_delitem :: "nat \<Rightarrow> 'a list \<Rightarrow> 'a list" where
  "list_delitem i xs = (if i < length xs then take i xs @ drop (Suc i) xs else xs)"

definition list_reverse :: "'a list \<Rightarrow> 'a list" where
  "list_reverse xs = rev xs"

definition list_clear :: "'a list \<Rightarrow> 'a list" where
  "list_clear xs = []"

definition mutate_all :: "'a list_heap \<Rightarrow> ref \<Rightarrow> ('a list \<Rightarrow> 'a list) list \<Rightarrow> 'a list_heap" where
  "mutate_all heap r fs = foldl (\<lambda>h f. mutate_list h r f) heap fs"



section \<open>document\_loader.py\<close>

text \<open>
  The arguments \<open>__init__\<close> gives to \<open>RecursiveCharacterTextSplitter\<close>
  (\<open>length_function\<close> is always \<open>len\<close>), and the loader object. Whether the splitter
  accepts the arguments is the splitter's business and not modelled.
\<close>

record text_splitter =
  ts_chunk_size :: int
  ts_chunk_overlap :: int
  ts_separators :: "pystr list"

record DocumentLoader =
  chunk_size :: int
  chunk_overlap :: int
  text_splitter :: text_splitter
  supported_extensions :: "pystr set"

definition DocumentLoader_init :: "int \<Rightarrow> int \<Rightarrow> DocumentLoader" where
  "DocumentLoader_init chunk_size' chunk_overlap' =
     \<lparr>chunk_size = chunk_size',
      chunk_overlap = chunk_overlap',
      text_splitter =
        \<lparr>ts_chunk_size = chunk_size', ts_chunk_overlap = chunk_overlap',
         ts_separators = [[10, 10], [10], py '' '', []]\<rparr>,
      supported_extensions = {py ''.pdf'', py ''.txt'', py ''.docx'', py ''.doc''}\<rparr>"

datatype loader_class = PyPDFLoader | TextLoader | Docx2txtLoader

text \<open>
  What \<open>load_single_document\<close> calls outside the repository. From the standard library:
  \<open>Path.exists()\<close>, which returns a truth value or raises \<open>OSError\<close> (a name that is
  too long, a directory that may not be searched); \<open>str\<close>, \<open>name\<close> and \<open>suffix\<close> of
  the path; and \<open>str.lower\<close>. From LangChain: the loader of a class, built on the path
  and asked to \<open>load()\<close>, and the chunker behind \<open>split_documents\<close>, as far as the
  documents have text; both may raise.
\<close>

record loader_env =
  path_exists :: "pystr \<Rightarrow> exn + bool"
  path_str :: "pystr \<Rightarrow> pystr"
  path_name :: "pystr \<Rightarrow> pystr"
  path_suffix :: "pystr \<Rightarrow> pystr"
  str_lower :: "pystr \<Rightarrow> pystr"
  loader_load :: "loader_class \<Rightarrow> pystr \<Rightarrow> exn + document list"
  chunk_documents :: "text_splitter \<Rightarrow> document list \<Rightarrow> exn + document list"

text \<open>The records the module's logger receives, one constructor per message.\<close>

datatype log_level = INFO | WARNING | ERROR

datatype loader_log =
    File_not_found pystr
  | Unsupported_file_type pystr
  | No_loader_available pystr
  | Loaded_chunks nat pystr
  | Error_loading pystr exn

fun loader_log_level :: "loader_log \<Rightarrow> log_level" where
  "loader_log_level (File_not_found file_path) = ERROR"
| "loader_log_level (Unsupported_file_type file_extension) = WARNING"
| "loader_log_level (No_loader_available file_extension) = ERROR"
| "loader_log_level (Loaded_chunks n file_name) = INFO"
| "loader_log_level (Error_loading file_path e) = ERROR"

text \<open>The \<open>if\<close>/\<open>elif\<close> chain that picks the loader class.\<close>

definition choose_loader :: "pystr \<Rightarrow> loader_class option" where
  "choose_loader file_extension =
     (if file_extension = py ''.pdf'' then Some PyPDFLoader
      else if file_extension = py ''.txt'' then Some TextLoader
      else if file_extension \<in> set [py ''.docx'', py ''.doc''] then Some Docx2txtLoader
      else None)"

text \<open>\<open>doc.metadata.update({'source_file': ..., 'file_name': ..., 'file_type': ...})\<close>.\<close>

definition add_file_metadata :: "pystr \<Rightarrow> pystr \<Rightarrow> pystr \<Rightarrow> document \<Rightarrow> document" where
  "add_file_metadata source_file file_name file_type doc =
     doc\<lparr>metadata :=
           AList.update (py ''file_type'') file_type
             (AList.update (py ''file_name'') file_name
                (AList.update (py ''source_file'') source_file (metadata doc)))\<rparr>"

text \<open>
  Modelled from the spec: the chunker behind \<open>self.text_splitter.split_documents\<close>
  (LangChain's \<open>RecursiveCharacterTextSplitter\<close>, whose code is outside the repository).
  The spec has empty input yield an empty chunk sequence: documents without any text, or no
  document at all, give no chunk. What the chunker makes of documents with text is the
  parameter \<open>chunk_documents\<close>.
\<close>

definition split_documents ::
  "loader_env \<Rightarrow> text_splitter \<Rightarrow> document list \<Rightarrow> exn + document list"
where
  "split_documents env splitter documents =
     (if list_all (\<lambda>doc. page_content doc = []) documents then Inr []
      else chunk_documents env splitter documents)"

text \<open>
  \<open>load_single_document\<close>: the records logged, and the outcome. \<open>file_path.exists()\<close>
  stands before the \<open>try\<close> block, so an exception of it is the outcome of the call. The
  two inner \<open>case\<close>s on \<open>Inl e\<close> are the \<open>except Exception\<close> handler of the \<open>try\<close>
  block.
\<close>

definition load_single_document ::
  "loader_env \<Rightarrow> DocumentLoader \<Rightarrow> pystr \<Rightarrow> loader_log list \<times> (exn + document list)"
where
  "load_single_document env self file_path =
     (case path_exists env file_path of
        Inl e \<Rightarrow> ([], Inl e)
      | Inr False \<Rightarrow> ([File_not_found (path_str env file_path)], Inr [])
      | Inr True \<Rightarrow>
          let file_extension = str_lower env (path_suffix env file_path) in
          if file_extension \<notin> supported_extensions self
          then ([Unsupported_file_type file_extension], Inr [])
          else
            (case choose_loader file_extension of
               None \<Rightarrow> ([No_loader_available file_extension], Inr [])
             | Some loader \<Rightarrow>
                 (case loader_load env loader (path_str env file_path) of
                    Inl e \<Rightarrow> ([Error_loading (path_str env file_path) e], Inr [])
                  | Inr documents \<Rightarrow>
                      (case split_documents env (text_splitter self)
                              (map (add_file_metadata (path_str env file_path)
                                      (path_name env file_path) file_extension) documents) of
                         Inl e \<Rightarrow> ([Error_loading (path_str env file_path) e], Inr [])
                       | Inr chunks \<Rightarrow>
                           ([Loaded_chunks (length chunks) (path_name env file_path)],
                            Inr chunks)))))"

text \<open>
  \<open>load_multiple_files\<close>: the chunks of every file, one file after the other; an
  exception of \<open>load_single_document\<close> ends the loop.
\<close>

fun load_multiple_files ::
  "loader_env \<Rightarrow> DocumentLoader \<Rightarrow> pystr list \<Rightarrow> loader_log list \<times> (exn + document list)"
where
  "load_multiple_files env self [] = ([], Inr [])"
| "load_multiple_files env self (file_path # file_paths) =
     (case load_single_document env self file_path of
        (logged, Inl e) \<Rightarrow> (logged, Inl e)
      | (logged, Inr chunks) \<Rightarrow>
          (case load_multiple_files env self file_paths of
             (logged', Inl e) \<Rightarrow> (logged @ logged', Inl e)
           | (logged', Inr all_chunks) \<Rightarrow> (logged @ logged', Inr (chunks @ all_chunks))))"

text \<open>
  An environment for the examples, whose paths are flat POSIX names in ASCII. On these,
  \<open>name\<close> and \<open>suffix\<close> are as \<open>pathlib\<close> computes them (the suffix starts at the last
  dot of the name, unless that dot is its first or last character) and \<open>str.lower\<close> maps
  \<open>A\<close> to \<open>Z\<close> to \<open>a\<close> to \<open>z\<close>. Every path exists but \<open>missing.txt\<close>;
  \<open>broken.pdf\<close> cannot be read; \<open>empty.txt\<close> holds one document without text; every
  other file holds one document, which the chunker leaves whole.
\<close>

definition posix_name :: "pystr \<Rightarrow> pystr" where
  "posix_name p = rev (takeWhile (\<lambda>c. c \<noteq> 47) (rev p))"

definition posix_suffix :: "pystr \<Rightarrow> pystr" where
  "posix_suffix p =
     (let name = posix_name p;
          k = length (takeWhile (\<lambda>c. c \<noteq> 46) (rev name))
      in if 1 \<le> k \<and> k + 2 \<le> length name then drop (length name - Suc k) name else [])"

definition ascii_lower :: "pystr \<Rightarrow> pystr" where
  "ascii_lower s = map (\<lambda>c. if 65 \<le> c \<and> c \<le> 90 then c + 32 else c) s"

definition example_env :: loader_env where
  "example_env =
     \<lparr>path_exists = (\<lambda>p. Inr (p \<noteq> py ''missing.txt'')),
      path_str = (\<lambda>p. p),
      path_name = posix_name,
      path_suffix = posix_suffix,
      str_lower = ascii_lower,
      loader_load = (\<lambda>loader p.
        if p = py ''broken.pdf'' then Inl (Exn (py ''PdfReadError'') (py ''EOF marker not found''))
        else if p = py ''empty.txt'' then Inr [\<lparr>page_content = [], metadata = []\<rparr>]
        else Inr [\<lparr>page_content = py ''Machine learning is a subset of artificial intelligence.'',
                   metadata = []\<rparr>]),
      chunk_documents = (\<lambda>splitter documents. Inr documents)\<rparr>"

text \<open>
  The same environment on a file system where the file name is too long for
  \<open>Path.exists()\<close>.
\<close>

definition name_too_long_env :: loader_env where
  "name_too_long_env =
     example_env\<lparr>path_exists :=
       (\<lambda>p. Inl (Exn (py ''OSError'') (py ''[Errno 36] File name too long'')))\<rparr>"


section \<open>vector\_store\_manager.py\<close>

text \<open>
  The manager object. \<open>vector_store\<close> is \<open>None\<close> or the \<open>Chroma\<close> object; \<open>'h\<close> is the
  type of such objects.
\<close>

record 'h VectorStoreManager =
  persist_directory :: pystr
  collection_name :: pystr
  embedding_model :: pystr
  vector_store :: "'h option"

type_synonym metadata_filter = "(pystr \<times> pystr) list"

text \<open>
  What the manager calls outside the repository, as functions of the state \<open>'w\<close> of that
  outside (the persist directory and the embedding provider): \<open>Path.mkdir\<close>, whether
  \<open>chroma.sqlite3\<close> exists in the directory, the constructor \<open>Chroma(collection_name,
  embedding_function, persist_directory)\<close>, the truth value Python gives a \<open>Chroma\<close>
  object in \<open>if self.vector_store\<close>, and the methods of the object that the manager
  calls. A search and a count read the state; the other calls may change it. \<open>'i\<close> is the
  type of document ids.
\<close>

record ('w, 'h, 'i) chroma =
  mkdir :: "'w \<Rightarrow> pystr \<Rightarrow> (exn + unit) \<times> 'w"
  database_exists :: "'w \<Rightarrow> pystr \<Rightarrow> bool"
  Chroma :: "'w \<Rightarrow> pystr \<Rightarrow> pystr \<Rightarrow> pystr \<Rightarrow> (exn + 'h) \<times> 'w"
  truth_value :: "'w \<Rightarrow> 'h \<Rightarrow> bool"
  store_add_documents :: "'w \<Rightarrow> 'h \<Rightarrow> document list \<Rightarrow> (exn + 'i list) \<times> 'w"
  store_similarity_search ::
    "'w \<Rightarrow> 'h \<Rightarrow> pystr \<Rightarrow> int \<Rightarrow> metadata_filter option \<Rightarrow> exn + document list"
  collection_count :: "'w \<Rightarrow> 'h \<Rightarrow> exn + nat"
  store_delete_collection :: "'w \<Rightarrow> 'h \<Rightarrow> (exn + unit) \<times> 'w"

datatype store_log =
    Loading_existing pystr
  | Creating_new pystr
  | Error_initializing exn
  | No_documents_provided
  | Adding_documents nat
  | Added_documents nat
  | Error_adding exn
  | Store_not_initialized
  | Found_documents nat
  | Error_searching exn
  | Error_collection_info exn
  | Deleted_collection pystr
  | Error_deleting exn

fun store_log_level :: "store_log \<Rightarrow> log_level" where
  "store_log_level (Loading_existing d) = INFO"
| "store_log_level (Creating_new d) = INFO"
| "store_log_level (Error_initializing e) = ERROR"
| "store_log_level No_documents_provided = WARNING"
| "store_log_level (Adding_documents n) = INFO"
| "store_log_level (Added_documents n) = INFO"
| "store_log_level (Error_adding e) = ERROR"
| "store_log_level Store_not_initialized = ERROR"
| "store_log_level (Found_documents n) = INFO"
| "store_log_level (Error_searching e) = ERROR"
| "store_log_level (Error_collection_info e) = ERROR"
| "store_log_level (Deleted_collection n) = INFO"
| "store_log_level (Error_deleting e) = ERROR"

text \<open>
  The state a method runs in: the manager object, the outside, and what the logger has
  received so far. A method maps it to its outcome and the state after the call.
\<close>

record ('w, 'h) session =
  manager :: "'h VectorStoreManager"
  world :: 'w
  logged :: "store_log list"

definition vector_store_exists :: "('w, 'h, 'i) chroma \<Rightarrow> 'w \<Rightarrow> 'h VectorStoreManager \<Rightarrow> bool" where
  "vector_store_exists lib w self = database_exists lib w (persist_directory self)"

text \<open>
  \<open>_initialize_vector_store\<close>. Both branches of its \<open>if\<close> build the store with the same
  arguments and differ in the message logged; an exception is logged and raised again.
\<close>

definition initialize_vector_store ::
  "('w, 'h, 'i) chroma \<Rightarrow> ('w, 'h) session \<Rightarrow> (exn + unit) \<times> ('w, 'h) session"
where
  "initialize_vector_store lib s =
     (case mkdir lib (world s) (persist_directory (manager s)) of
        (Inl e, w1) \<Rightarrow> (Inl e, s\<lparr>world := w1, logged := logged s @ [Error_initializing e]\<rparr>)
      | (Inr u, w1) \<Rightarrow>
          let opening =
                (if vector_store_exists lib w1 (manager s)
                 then Loading_existing (persist_directory (manager s))
                 else Creating_new (persist_directory (manager s)))
          in case Chroma lib w1 (collection_name (manager s)) (embedding_model (manager s))
                    (persist_directory (manager s)) of
               (Inl e, w2) \<Rightarrow>
                 (Inl e, s\<lparr>world := w2, logged := logged s @ [opening, Error_initializing e]\<rparr>)
             | (Inr h, w2) \<Rightarrow>
                 (Inr (), s\<lparr>manager := (manager s)\<lparr>vector_store := Some h\<rparr>,
                            world := w2, logged := logged s @ [opening]\<rparr>))"

definition VectorStoreManager_init ::
  "('w, 'h, 'i) chroma \<Rightarrow> 'w \<Rightarrow> pystr \<Rightarrow> pystr \<Rightarrow> pystr \<Rightarrow> (exn + unit) \<times> ('w, 'h) session"
where
  "VectorStoreManager_init lib w persist_directory' collection_name' embedding_model' =
     initialize_vector_store lib
       \<lparr>manager = \<lparr>persist_directory = persist_directory', collection_name = collection_name',
                    embedding_model = embedding_model', vector_store = None\<rparr>,
        world = w, logged = []\<rparr>"

text \<open>\<open>None.add_documents\<close>: the \<open>AttributeError\<close> Python raises on \<open>None\<close>.\<close>

definition attribute_error :: "pystr \<Rightarrow> exn" where
  "attribute_error attr =
     Exn (py ''AttributeError'')
       ([39] @ py ''NoneType'' @ [39] @ py '' object has no attribute '' @ [39] @ attr @ [39])"

definition add_documents ::
  "('w, 'h, 'i) chroma \<Rightarrow> ('w, 'h) session \<Rightarrow> document list
     \<Rightarrow> (exn + 'i list) \<times> ('w, 'h) session"
where
  "add_documents lib s documents =
     (if documents = [] then (Inr [], s\<lparr>logged := logged s @ [No_documents_provided]\<rparr>)
      else
        case vector_store (manager s) of
          None \<Rightarrow>
            (Inl (attribute_error (py ''add_documents'')),
             s\<lparr>logged := logged s @ [Adding_documents (length documents),
                                      Error_adding (attribute_error (py ''add_documents''))]\<rparr>)
        | Some h \<Rightarrow>
            (case store_add_documents lib (world s) h documents of
               (Inl e, w') \<Rightarrow>
                 (Inl e, s\<lparr>world := w',
                           logged := logged s @ [Adding_documents (length documents),
                                                 Error_adding e]\<rparr>)
             | (Inr doc_ids, w') \<Rightarrow>
                 (Inr doc_ids,
                  s\<lparr>world := w',
                    logged := logged s @ [Adding_documents (length documents),
                                          Added_documents (length doc_ids)]\<rparr>)))"

text \<open>
  \<open>if filter_criteria:\<close> passes the filter on when it is a dict with at least one key;
  otherwise the store is searched without a filter.
\<close>

definition passed_filter :: "metadata_filter option \<Rightarrow> metadata_filter option" where
  "passed_filter filter_criteria =
     (case filter_criteria of
        None \<Rightarrow> None
      | Some [] \<Rightarrow> None
      | Some (kv # kvs) \<Rightarrow> Some (kv # kvs))"

definition similarity_search ::
  "('w, 'h, 'i) chroma \<Rightarrow> ('w, 'h) session \<Rightarrow> pystr \<Rightarrow> int \<Rightarrow> metadata_filter option
     \<Rightarrow> (exn + document list) \<times> ('w, 'h) session"
where
  "similarity_search lib s query k filter_criteria =
     (case vector_store (manager s) of
        None \<Rightarrow> (Inr [], s\<lparr>logged := logged s @ [Store_not_initialized]\<rparr>)
      | Some h \<Rightarrow>
          if \<not> truth_value lib (world s) h
          then (Inr [], s\<lparr>logged := logged s @ [Store_not_initialized]\<rparr>)
          else
            (case store_similarity_search lib (world s) h query k
                    (passed_filter filter_criteria) of
               Inl e \<Rightarrow> (Inr [], s\<lparr>logged := logged s @ [Error_searching e]\<rparr>)
             | Inr results \<Rightarrow>
                 (Inr results, s\<lparr>logged := logged s @ [Found_documents (length results)]\<rparr>)))"

text \<open>The dict \<open>get_collection_info\<close> returns: the error, or the three entries.\<close>

datatype collection_info =
    Info_error pystr
  | Info (info_collection_name: pystr) (info_document_count: nat) (info_persist_directory: pystr)

definition get_collection_info ::
  "('w, 'h, 'i) chroma \<Rightarrow> ('w, 'h) session \<Rightarrow> (exn + collection_info) \<times> ('w, 'h) session"
where
  "get_collection_info lib s =
     (case vector_store (manager s) of
        None \<Rightarrow> (Inr (Info_error (py ''Vector store not initialized'')), s)
      | Some h \<Rightarrow>
          if \<not> truth_value lib (world s) h
          then (Inr (Info_error (py ''Vector store not initialized'')), s)
          else
            (case collection_count lib (world s) h of
               Inl e \<Rightarrow>
                 (Inr (Info_error (exn_str e)),
                  s\<lparr>logged := logged s @ [Error_collection_info e]\<rparr>)
             | Inr n \<Rightarrow>
                 (Inr (Info (collection_name (manager s)) n (persist_directory (manager s))),
                  s)))"

text \<open>
  \<open>delete_collection\<close>. The first step is the \<open>if self.vector_store:\<close> statement; an
  exception in it, or in \<open>_initialize_vector_store\<close> after it, is logged and raised again.
\<close>

definition delete_if_present ::
  "('w, 'h, 'i) chroma \<Rightarrow> ('w, 'h) session \<Rightarrow> (exn + unit) \<times> ('w, 'h) session"
where
  "delete_if_present lib s =
     (case vector_store (manager s) of
        None \<Rightarrow> (Inr (), s)
      | Some h \<Rightarrow>
          if \<not> truth_value lib (world s) h then (Inr (), s)
          else
            (case store_delete_collection lib (world s) h of
               (Inl e, w') \<Rightarrow> (Inl e, s\<lparr>world := w'\<rparr>)
             | (Inr u, w') \<Rightarrow>
                 (Inr (), s\<lparr>world := w',
                            logged := logged s @ [Deleted_collection (collection_name (manager s))]\<rparr>)))"

definition delete_collection ::
  "('w, 'h, 'i) chroma \<Rightarrow> ('w, 'h) session \<Rightarrow> (exn + unit) \<times> ('w, 'h) session"
where
  "delete_collection lib s =
     (case delete_if_present lib s of
        (Inl e, s1) \<Rightarrow> (Inl e, s1\<lparr>logged := logged s1 @ [Error_deleting e]\<rparr>)
      | (Inr u, s1) \<Rightarrow>
          (case initialize_vector_store lib s1 of
             (Inl e, s2) \<Rightarrow> (Inl e, s2\<lparr>logged := logged s2 @ [Error_deleting e]\<rparr>)
           | (Inr u', s2) \<Rightarrow> (Inr (), s2)))"



section \<open>The store behind the manager\<close>

text \<open>
  The vector store the manager wraps (LangChain's \<open>Chroma\<close> with its embedding function)
  is code outside the repository. This section models it from the spec's data model and
  its contract of the Vector Index, the Embedding Provider and the Persistent Collection
  Store.
\<close>

type_synonym vector = "int list"

text \<open>
  Modelled from the spec: an indexed record of the external store, a chunk with its vector
  and the unique identifier assigned at insertion.
\<close>

record indexed_record =
  record_id :: nat
  record_vector :: vector
  record_chunk :: document

text \<open>
  Modelled from the spec: a collection of the external store, its records with the
  embedding dimension; \<open>next_id\<close> keeps identifiers from being used twice.
\<close>

record collection =
  records :: "indexed_record list"
  dimension :: nat
  next_id :: nat

type_synonym handle = "pystr \<times> pystr"

text \<open>
  Modelled from the spec: the state outside the manager. The embedding provider maps a text
  to a vector or is unreachable, and has a fixed dimension; the persistent collection
  store, which may be unavailable, keeps the collections under persist directory and
  collection name. A \<open>Chroma\<close> object (a \<open>handle\<close>) is the key of its collection.
\<close>

record provider_and_store =
  embed :: "pystr \<Rightarrow> exn + vector"
  embed_dimension :: nat
  store_available :: bool
  databases :: "pystr list"
  collections :: "(handle \<times> collection) list"

text \<open>
  Modelled from the spec: embedding a text in the external store fails with
  \<open>EmbeddingError\<close> if the provider is unreachable or returns a vector of the wrong
  dimension.
\<close>

definition embed_text :: "provider_and_store \<Rightarrow> pystr \<Rightarrow> exn + vector" where
  "embed_text w text =
     (case embed w text of
        Inl e \<Rightarrow> Inl (Exn (py ''EmbeddingError'') (exn_str e))
      | Inr v \<Rightarrow>
          if length v = embed_dimension w then Inr v
          else Inl (Exn (py ''EmbeddingError'') (py ''wrong dimensionality'')))"

text \<open>
  Modelled from the spec: the external store embeds each chunk of a batch, in order, and
  the first failure is the failure of the batch.
\<close>

fun embed_all :: "provider_and_store \<Rightarrow> document list \<Rightarrow> exn + vector list" where
  "embed_all w [] = Inr []"
| "embed_all w (chunk # chunks) =
     (case embed_text w (page_content chunk) of
        Inl e \<Rightarrow> Inl e
      | Inr v \<Rightarrow>
          (case embed_all w chunks of
             Inl e \<Rightarrow> Inl e
           | Inr vs \<Rightarrow> Inr (v # vs)))"

text \<open>
  Modelled from the spec: the error of the external store for a store object whose
  collection has been destroyed.
\<close>

definition no_such_collection :: exn where
  "no_such_collection = Exn (py ''PersistenceError'') (py ''no such collection'')"

text \<open>
  Modelled from the spec: creating the persist directory for the external store changes no
  collection.
\<close>

definition spec_mkdir :: "provider_and_store \<Rightarrow> pystr \<Rightarrow> (exn + unit) \<times> provider_and_store" where
  "spec_mkdir w dir = (Inr (), w)"

text \<open>
  Modelled from the spec: the external store has persisted state in a directory once it
  has been opened there.
\<close>

definition spec_database_exists :: "provider_and_store \<Rightarrow> pystr \<Rightarrow> bool" where
  "spec_database_exists w dir \<longleftrightarrow> dir \<in> set (databases w)"

text \<open>
  Modelled from the spec: initialization of the external store loads the collection
  persisted under the name, or creates an empty one if there is none; it fails with
  \<open>PersistenceError\<close> if the collection store is unavailable.
\<close>

definition spec_open ::
  "provider_and_store \<Rightarrow> pystr \<Rightarrow> pystr \<Rightarrow> pystr \<Rightarrow> (exn + handle) \<times> provider_and_store"
where
  "spec_open w name model dir =
     (if \<not> store_available w
      then (Inl (Exn (py ''PersistenceError'') (py ''collection store unavailable'')), w)
      else
        case map_of (collections w) (dir, name) of
          Some c \<Rightarrow> (Inr (dir, name), w\<lparr>databases := List.insert dir (databases w)\<rparr>)
        | None \<Rightarrow>
            (Inr (dir, name),
             w\<lparr>databases := List.insert dir (databases w),
               collections :=
                 AList.update (dir, name)
                   \<lparr>records = [], dimension = embed_dimension w, next_id = 0\<rparr>
                   (collections w)\<rparr>))"

text \<open>
  Modelled from the spec: \<open>add\<close> of the external store embeds each chunk's text, stores
  vector, text and metadata under new identifiers and returns them; it fails with
  \<open>EmbeddingError\<close> if the provider is unreachable or returns a malformed vector, and
  then commits nothing.
\<close>

definition spec_add ::
  "provider_and_store \<Rightarrow> handle \<Rightarrow> document list \<Rightarrow> (exn + nat list) \<times> provider_and_store"
where
  "spec_add w h chunks =
     (case embed_all w chunks of
        Inl e \<Rightarrow> (Inl e, w)
      | Inr vs \<Rightarrow>
          (case map_of (collections w) h of
             None \<Rightarrow> (Inl no_such_collection, w)
           | Some c \<Rightarrow>
               let ids = [next_id c ..< next_id c + length chunks];
                   new = map (\<lambda>(i, v, chunk).
                                \<lparr>record_id = i, record_vector = v, record_chunk = chunk\<rparr>)
                             (zip ids (zip vs chunks))
               in (Inr ids,
                   w\<lparr>collections :=
                       AList.update h
                         (c\<lparr>records := records c @ new,
                            next_id := next_id c + length chunks\<rparr>)
                         (collections w)\<rparr>)))"

text \<open>
  Modelled from the spec: the similarity by which the external store ranks, here the inner
  product of the two vectors.
\<close>

definition similarity :: "vector \<Rightarrow> vector \<Rightarrow> int" where
  "similarity u v = sum_list (map (\<lambda>(a, b). a * b) (zip u v))"

text \<open>
  Modelled from the spec: the metadata filter of a search in the external store; a record
  passes if its metadata hold every entry of the filter.
\<close>

definition matches_filter :: "metadata_filter option \<Rightarrow> indexed_record \<Rightarrow> bool" where
  "matches_filter flt r =
     (case flt of
        None \<Rightarrow> True
      | Some kvs \<Rightarrow> list_all (\<lambda>kv. kv \<in> set (metadata (record_chunk r))) kvs)"

text \<open>
  Modelled from the spec: \<open>search\<close> of the external store wants \<open>k \<ge> 1\<close>, embeds the
  query, keeps the records that pass the filter, ranks them by descending similarity with
  ties broken by record identifier, and returns the chunks of the first \<open>k\<close>.
\<close>

definition spec_search ::
  "provider_and_store \<Rightarrow> handle \<Rightarrow> pystr \<Rightarrow> int \<Rightarrow> metadata_filter option
     \<Rightarrow> exn + document list"
where
  "spec_search w h query k flt =
     (if k < 1 then Inl (Exn (py ''ValueError'') (py ''k must be at least 1''))
      else
        case embed_text w query of
          Inl e \<Rightarrow> Inl e
        | Inr qv \<Rightarrow>
            (case map_of (collections w) h of
               None \<Rightarrow> Inl no_such_collection
             | Some c \<Rightarrow>
                 Inr (map record_chunk
                        (take (nat k)
                           (sort_key (\<lambda>r. (- similarity qv (record_vector r), record_id r))
                              (filter (matches_filter flt) (records c)))))))"

text \<open>
  Modelled from the spec: \<open>collection_info\<close> of the external store counts the records of
  the collection.
\<close>

definition spec_count :: "provider_and_store \<Rightarrow> handle \<Rightarrow> exn + nat" where
  "spec_count w h =
     (case map_of (collections w) h of
        None \<Rightarrow> Inl no_such_collection
      | Some c \<Rightarrow> Inr (length (records c)))"

text \<open>
  Modelled from the spec: clearing in the external store destroys the collection with all
  its records (the manager then reinitializes it).
\<close>

definition spec_delete ::
  "provider_and_store \<Rightarrow> handle \<Rightarrow> (exn + unit) \<times> provider_and_store"
where
  "spec_delete w h = (Inr (), w\<lparr>collections := AList.delete h (collections w)\<rparr>)"

text \<open>
  Modelled from the spec: the external store as the manager sees it. The spec says nothing
  about the truth value of a store object; here it is true, as for a Python object of a
  class that defines neither \<open>__bool__\<close> nor \<open>__len__\<close>.
\<close>

definition spec_chroma :: "(provider_and_store, handle, nat) chroma" where
  "spec_chroma =
     \<lparr>mkdir = spec_mkdir,
      database_exists = spec_database_exists,
      Chroma = spec_open,
      truth_value = (\<lambda>w h. True),
      store_add_documents = spec_add,
      store_similarity_search = spec_search,
      collection_count = spec_count,
      store_delete_collection = spec_delete\<rparr>"

text \<open>
  A manager as \<open>__init__\<close> leaves it: its store object is the one for its own persist
  directory and collection name.
\<close>

definition initialized :: "(provider_and_store, handle) session \<Rightarrow> bool" where
  "initialized s \<longleftrightarrow>
     vector_store (manager s)
       = Some (persist_directory (manager s), collection_name (manager s))"

text \<open>A chunk the provider cannot embed: it is unreachable, or its vector is malformed.\<close>

definition embedding_fails :: "provider_and_store \<Rightarrow> document \<Rightarrow> bool" where
  "embedding_fails w chunk =
     (case embed w (page_content chunk) of
        Inl e \<Rightarrow> True
      | Inr v \<Rightarrow> length v \<noteq> embed_dimension w)"

text \<open>
  For the examples: a provider of dimension 2 that embeds a text as its length and its first
  code point, returns a vector of three numbers for the text \<open>bad\<close>, and is unreachable
  for the text \<open>down\<close>; and a session opened on an empty store, of which one then holds
  two chunks.
\<close>

definition example_embed :: "pystr \<Rightarrow> exn + vector" where
  "example_embed text =
     (if text = py ''down'' then Inl (Exn (py ''APIConnectionError'') (py ''Connection error.''))
      else if text = py ''bad'' then Inr [1, 2, 3]
      else Inr [int (length text), int (case text of [] \<Rightarrow> 0 | c # cs \<Rightarrow> c)])"

definition example_store :: provider_and_store where
  "example_store =
     \<lparr>embed = example_embed, embed_dimension = 2, store_available = True,
      databases = [], collections = []\<rparr>"

definition example_session :: "(provider_and_store, handle) session" where
  "example_session =
     snd (VectorStoreManager_init spec_chroma example_store (py ''./chroma_db'')
            (py ''qa_documents'') (py ''text-embedding-ada-002''))"

definition chunk_ai :: document where
  "chunk_ai = \<lparr>page_content = py ''intelligence'', metadata = [(py ''source'', py ''test1.txt'')]\<rparr>"

definition chunk_ml :: document where
  "chunk_ml = \<lparr>page_content = py ''learning'', metadata = [(py ''source'', py ''test2.txt'')]\<rparr>"

definition loaded_session :: "(provider_and_store, handle) session" where
  "loaded_session = snd (add_documents spec_chroma example_session [chunk_ai, chunk_ml])"


definition bad_chunk :: document where
  "bad_chunk = \<lparr>page_content = py ''bad'', metadata = []\<rparr>"


section \<open>Properties of qa\_chain\_manager.py\<close>

lemma dropWhile_all_iff: "(\<forall>x\<in>set (dropWhile P s). P x) \<longleftrightarrow> (\<forall>x\<in>set s. P x)"
proof
  assume holds: "\<forall>x\<in>set (dropWhile P s). P x"
  have "dropWhile P s = []"
  proof (rule ccontr)
    assume "dropWhile P s \<noteq> []"
    then have "\<not> P (hd (dropWhile P s))" and "hd (dropWhile P s) \<in> set (dropWhile P s)"
      by (simp_all add: hd_dropWhile)
    with holds show False by blast
  qed
  then show "\<forall>x\<in>set s. P x" by (simp add: dropWhile_eq_Nil_conv)
next
  assume "\<forall>x\<in>set s. P x"
  then show "\<forall>x\<in>set (dropWhile P s). P x" by (meson set_dropWhileD)
qed

lemma py_strip_empty_iff: "py_strip s = [] \<longleftrightarrow> list_all py_isspace s"
  by (simp add: py_strip_def dropWhile_eq_Nil_conv list_all_iff dropWhile_all_iff)

text \<open>
  Claim C1. A question made of whitespace only (the empty string included) gets the
  structured failure result: the outcome is a returned dict, not an exception; its
  \<open>error\<close> key holds \<open>Empty question\<close> and it has no \<open>success\<close> key. The chain is not
  called: whatever the chain is, the manager, and with it the state of the chain, is the
  one before the call.
\<close>

theorem ask_question_whitespace:
  assumes "list_all py_isspace question"
  shows "ask_question qa_chain now self question = (Inr empty_question_result, self)
       \<and> res_error empty_question_result = Some (py ''Empty question'')
       \<and> res_success empty_question_result \<noteq> Some True"
  using assms by (simp add: ask_question_def py_strip_empty_iff empty_question_result_def)

text \<open>
  An instance: a question of a space, a tab, a line feed and an em space, put to a chain
  that counts its calls in its state and would raise. The count stays 0.
\<close>

theorem ask_question_whitespace_witness:
  "list_all py_isspace [32, 9, 10, 8195]
   \<and> ask_question (\<lambda>calls q. (Inl (Exn (py ''TimeoutError'') []), Suc calls)) (py ''t0'')
         (QAChainManager_init (0::nat) 10) [32, 9, 10, 8195]
       = (Inr empty_question_result, QAChainManager_init 0 10)"
  using ask_question_whitespace
    [of "[32, 9, 10, 8195]" "\<lambda>calls q. (Inl (Exn (py ''TimeoutError'') []), Suc calls)"
        "py ''t0''" "QAChainManager_init (0::nat) 10"]
  by (simp add: py_isspace_def)

text \<open>
  Claim C3. When the call of the chain raises (the chat completion provider timed out, say),
  \<open>ask_question\<close> returns a dict with \<open>success = False\<close> whose \<open>error\<close> key holds
  \<open>str(e)\<close> of that exception, and the conversation history is the one before the call:
  no turn was appended.
\<close>

theorem ask_question_chain_failure:
  assumes "\<not> list_all py_isspace question"
    and "qa_chain (chain_state self) question = (Inl e, chain')"
  shows "fst (ask_question qa_chain now self question) = Inr (error_result e)
       \<and> res_success (error_result e) = Some False
       \<and> res_error (error_result e) = Some (exn_str e)
       \<and> conversation_history (snd (ask_question qa_chain now self question))
           = conversation_history self"
  using assms by (simp add: ask_question_def py_strip_empty_iff error_result_def)

theorem ask_question_chain_failure_witness:
  "\<not> list_all py_isspace (py ''why?'')
   \<and> fst (ask_question timeout_chain (py ''t2'') one_turn_manager (py ''why?''))
       = Inr (error_result (Exn (py ''TimeoutError'') (py ''Request timed out.'')))
   \<and> conversation_history (snd (ask_question timeout_chain (py ''t2'') one_turn_manager (py ''why?'')))
       = conversation_history one_turn_manager"
  using ask_question_chain_failure
    [of "py ''why?''" timeout_chain one_turn_manager
        "Exn (py ''TimeoutError'') (py ''Request timed out.'')" "Suc 0" "py ''t2''"]
  by (simp add: py_def py_isspace_def timeout_chain_def one_turn_manager_def)

lemma foldl_append_map: "foldl (\<lambda>acc x. acc @ [f x]) acc0 xs = acc0 @ map f xs"
  by (induction xs arbitrary: acc0) simp_all

lemma prepare_sources_map:
  "prepare_sources docs = map (\<lambda>(i, doc). source_info_of i doc) (enumerate 0 docs)"
proof -
  have "(\<lambda>sources (i, doc). sources @ [source_info_of i doc])
        = (\<lambda>sources x. sources @ [(\<lambda>(i, doc). source_info_of i doc) x])"
    by (simp add: fun_eq_iff split: prod.splits)
  then show ?thesis
    by (simp add: prepare_sources_def foldl_append_map)
qed

lemma prepare_sources_length: "length (prepare_sources docs) = length docs"
  by (simp add: prepare_sources_map)

lemma prepare_sources_nth:
  "i < length docs \<Longrightarrow> prepare_sources docs ! i = source_info_of i (docs ! i)"
  by (simp add: prepare_sources_map nth_enumerate_eq)

lemma ask_question_success:
  assumes "ask_question qa_chain now self question = (Inr r, self')"
    and "res_success r = Some True"
  shows "\<not> list_all py_isspace question
       \<and> (\<exists>response chain'. qa_chain (chain_state self) question = (Inr response, chain'))"
  using assms
  by (auto simp add: ask_question_def py_strip_empty_iff empty_question_result_def
        error_result_def split: if_splits prod.splits sum.splits)

text \<open>
  Claim C9. A result has \<open>success = True\<close> only when the chain has returned
  (\<open>ask_question_success\<close>). When the chain returns, the result has \<open>success = True\<close> and one source per
  document of the response, in the order of the response: the source at position \<open>i\<close>
  (from 0) has number \<open>i + 1\<close> and the metadata of document \<open>i\<close>, and its excerpt is the
  whole text of the document when that has at most 300 characters, and otherwise its first
  300 characters followed by \<open>...\<close>.
\<close>

theorem ask_question_sources:
  assumes "\<not> list_all py_isspace question"
    and "qa_chain (chain_state self) question = (Inr response, chain')"
    and "docs = py_get (resp_source_documents response) []"
    and "fst (ask_question qa_chain now self question) = Inr r"
  shows "res_success r = Some True
       \<and> length (res_source_documents r) = length docs
       \<and> (\<forall>i < length docs.
             source_number (res_source_documents r ! i) = i + 1
           \<and> src_metadata (res_source_documents r ! i) = metadata (docs ! i)
           \<and> (length (page_content (docs ! i)) \<le> 300 \<longrightarrow>
                src_content (res_source_documents r ! i) = page_content (docs ! i))
           \<and> (length (page_content (docs ! i)) > 300 \<longrightarrow>
                src_content (res_source_documents r ! i)
                  = take 300 (page_content (docs ! i)) @ py ''...''))"
proof -
  from assms have r: "res_success r = Some True" "res_source_documents r = prepare_sources docs"
    by (auto simp add: ask_question_def py_strip_empty_iff Let_def)
  show ?thesis
    by (simp add: r prepare_sources_length prepare_sources_nth source_info_of_def)
qed

theorem ask_question_sources_witness:
  "\<not> list_all py_isspace (py ''why?'')
   \<and> (\<exists>r. fst (ask_question two_docs_chain (py ''t1'') (QAChainManager_init () 10) (py ''why?''))
            = Inr r
          \<and> length (res_source_documents r) = 2
          \<and> source_number (res_source_documents r ! 0) = 1
          \<and> source_number (res_source_documents r ! 1) = 2
          \<and> src_content (res_source_documents r ! 0) = py ''short text''
          \<and> src_content (res_source_documents r ! 1) = replicate 300 120 @ py ''...'')"
proof -
  have h1: "\<not> list_all py_isspace (py ''why?'')"
    by (simp add: py_def py_isspace_def)
  have h2: "two_docs_chain (chain_state (QAChainManager_init () 10)) (py ''why?'')
            = (Inr \<lparr>resp_answer = Some (py ''ok''), resp_source_documents = Some two_docs\<rparr>, ())"
    by (simp add: two_docs_chain_def)
  have h3: "two_docs = py_get (resp_source_documents
              \<lparr>resp_answer = Some (py ''ok''), resp_source_documents = Some two_docs\<rparr>) []"
    by (simp add: py_get_def)
  obtain r where h4:
    "fst (ask_question two_docs_chain (py ''t1'') (QAChainManager_init () 10) (py ''why?'')) = Inr r"
    using h1 by (simp add: ask_question_def py_strip_empty_iff two_docs_chain_def Let_def)
  have len: "length two_docs = 2" and d0: "two_docs ! 0 = \<lparr>page_content = py ''short text'',
      metadata = [(py ''file_name'', py ''a.txt'')]\<rparr>"
    and d1: "two_docs ! 1 = \<lparr>page_content = replicate 301 120,
      metadata = [(py ''file_name'', py ''b.txt'')]\<rparr>"
    by (simp_all add: two_docs_def)
  from ask_question_sources [OF h1 h2 h3 h4]
  have all: "length (res_source_documents r) = 2"
    "\<forall>i<2. source_number (res_source_documents r ! i) = i + 1
       \<and> (length (page_content (two_docs ! i)) \<le> 300 \<longrightarrow>
            src_content (res_source_documents r ! i) = page_content (two_docs ! i))
       \<and> (length (page_content (two_docs ! i)) > 300 \<longrightarrow>
            src_content (res_source_documents r ! i)
              = take 300 (page_content (two_docs ! i)) @ py ''...'')"
    by (simp_all add: len)
  from all(2) [rule_format, of 0]
  have first: "source_number (res_source_documents r ! 0) = 1"
    "src_content (res_source_documents r ! 0) = py ''short text''"
    by (simp_all add: d0 py_def)
  from all(2) [rule_format, of "Suc 0"] d1
  have second: "source_number (res_source_documents r ! 1) = 2"
    "src_content (res_source_documents r ! 1) = replicate 300 120 @ py ''...''"
    by (simp_all add: py_def)
  from h1 h4 all(1) first second show ?thesis by blast
qed

lemma ask_question_history_step:
  "conversation_history (snd (ask_question qa_chain now self question))
   = conversation_history self @ recorded_turn (fst (ask_question qa_chain now self question))"
  by (simp add: ask_question_def recorded_turn_def Let_def empty_question_result_def
        error_result_def split: prod.splits sum.splits)

text \<open>
  Claim C2, as the code has it. The turns that \<open>ask_question\<close> stores are kept in
  \<open>self.conversation_history\<close>, a plain list that is only ever appended to: after any
  session it holds the turns it held before, followed by one turn for each question that
  was answered with \<open>success = True\<close>, in the order asked. No turn is evicted.
  \<open>memory_window\<close> is handed to the chain's own \<open>ConversationBufferWindowMemory\<close> and
  plays no part in this list.
\<close>

theorem ask_questions_history_append_only:
  "conversation_history (snd (ask_questions qa_chain self questions))
   = conversation_history self
     @ concat (map recorded_turn (fst (ask_questions qa_chain self questions)))"
proof (induction questions arbitrary: self)
  case Nil
  show ?case by simp
next
  case (Cons nq rest)
  obtain now question where nq: "nq = (now, question)" by (cases nq)
  obtain outcome self' where step: "ask_question qa_chain now self question = (outcome, self')"
    by (cases "ask_question qa_chain now self question")
  obtain outcomes self'' where tail: "ask_questions qa_chain self' rest = (outcomes, self'')"
    by (cases "ask_questions qa_chain self' rest")
  have "conversation_history self' = conversation_history self @ recorded_turn outcome"
    using ask_question_history_step [of qa_chain now self question] by (simp add: step)
  moreover have "conversation_history self''
      = conversation_history self' @ concat (map recorded_turn outcomes)"
    using Cons.IH [of self'] by (simp add: tail)
  ultimately show ?case by (simp add: nq step tail)
qed

text \<open>
  Claim C2 as stated fails: with the default window of 10, after eleven answered questions
  the history holds eleven turns, the first question still at its head.
\<close>

theorem conversation_history_window_counterexample:
  "\<not> int (length (conversation_history
          (snd (ask_questions steady_chain (QAChainManager_init () 10) eleven_questions))))
      \<le> memory_window
          (snd (ask_questions steady_chain (QAChainManager_init () 10) eleven_questions))
   \<and> map entry_question (conversation_history
          (snd (ask_questions steady_chain (QAChainManager_init () 10) eleven_questions)))
     = map snd eleven_questions"
  by (simp add: eleven_questions_def steady_chain_def QAChainManager_init_def ask_question_def
        py_strip_def py_isspace_def py_def py_get_def prepare_sources_def Let_def)

lemma mutate_all_length: "length (mutate_all heap r fs) = length heap"
proof -
  have "length (foldl (\<lambda>h f. mutate_list h r f) heap fs) = length heap"
    by (induction fs arbitrary: heap) (simp_all add: mutate_list_def)
  then show ?thesis by (simp add: mutate_all_def)
qed

lemma mutate_all_elsewhere: "a \<noteq> r \<Longrightarrow> mutate_all heap r fs ! a = heap ! a"
proof -
  assume ne: "a \<noteq> r"
  have "foldl (\<lambda>h f. mutate_list h r f) heap fs ! a = heap ! a"
    using ne by (induction fs arbitrary: heap) (simp_all add: mutate_list_def)
  then show ?thesis by (simp add: mutate_all_def)
qed

text \<open>
  Claim C10. \<open>get_conversation_history\<close> returns a new list object holding the turns of the
  history. However the caller then mutates the returned list (appending, deleting,
  reordering, any number of times), the list object the manager refers to holds the same
  turns as before the call.
\<close>

theorem get_conversation_history_copy:
  assumes "conversation_history_ref self < length heap"
  shows "\<exists>r heap'. get_conversation_history heap self = Some (r, heap')
           \<and> r \<noteq> conversation_history_ref self
           \<and> heap' ! r = heap ! conversation_history_ref self
           \<and> (\<forall>fs. mutate_all heap' r fs ! conversation_history_ref self
                     = heap ! conversation_history_ref self)"
  using assms
  by (simp add: get_conversation_history_def list_copy_def mutate_all_elsewhere nth_append)

theorem get_conversation_history_copy_witness:
  "conversation_history_ref \<lparr>conversation_history_ref = 0\<rparr>
     < length [conversation_history one_turn_manager]
   \<and> get_conversation_history [conversation_history one_turn_manager]
        \<lparr>conversation_history_ref = 0\<rparr>
       = Some (1, [conversation_history one_turn_manager, conversation_history one_turn_manager])
   \<and> mutate_all [conversation_history one_turn_manager, conversation_history one_turn_manager] 1
        [list_append (hd (conversation_history one_turn_manager)), list_reverse,
         list_delitem 0, list_clear] ! 0
       = conversation_history one_turn_manager"
  using get_conversation_history_copy
    [of "\<lparr>conversation_history_ref = 0\<rparr>" "[conversation_history one_turn_manager]"]
  by (simp add: get_conversation_history_def list_copy_def)


section \<open>Properties of document\_loader.py\<close>

text \<open>
  When \<open>Path.exists()\<close> raises, the exception leaves \<open>load_single_document\<close>: the call
  stands before the \<open>try\<close> block. The properties below are about the calls in which it
  returns.
\<close>

lemma load_single_document_exists_raises:
  "path_exists env file_path = Inl e \<Longrightarrow> load_single_document env self file_path = ([], Inl e)"
  by (simp add: load_single_document_def)

lemma load_single_document_name_too_long:
  "load_single_document name_too_long_env (DocumentLoader_init 1000 200) (py ''a.txt'')
   = ([], Inl (Exn (py ''OSError'') (py ''[Errno 36] File name too long'')))"
  by (simp add: load_single_document_def name_too_long_env_def)

lemma split_documents_empty_input:
  "list_all (\<lambda>doc. page_content doc = []) documents \<Longrightarrow>
   split_documents env splitter (map (add_file_metadata source_file file_name file_type) documents)
   = Inr []"
  by (simp add: split_documents_def add_file_metadata_def list_all_iff)

text \<open>
  Claim C4, as the code has it. For a file that exists and whose extension is not among the
  supported ones, \<open>load_single_document\<close> logs a warning and returns the empty chunk
  sequence: the outcome is a returned list, and no error for the unsupported format is
  raised or returned. Empty and unreadable input are treated as the claim says: a file whose
  documents have no text (empty input), a file that does not exist, and a file whose loader
  raises (unreadable input) each give the empty chunk sequence, with a record in the log.
\<close>

theorem load_single_document_quiet:
  "(path_exists env file_path = Inr True
      \<and> str_lower env (path_suffix env file_path) \<notin> supported_extensions self \<longrightarrow>
      load_single_document env self file_path
        = ([Unsupported_file_type (str_lower env (path_suffix env file_path))], Inr []))
   \<and> (path_exists env file_path = Inr False \<longrightarrow>
        load_single_document env self file_path
          = ([File_not_found (path_str env file_path)], Inr []))
   \<and> (path_exists env file_path = Inr True
        \<and> str_lower env (path_suffix env file_path) \<in> supported_extensions self
        \<and> choose_loader (str_lower env (path_suffix env file_path)) = Some loader
        \<and> loader_load env loader (path_str env file_path) = Inl e \<longrightarrow>
        load_single_document env self file_path
          = ([Error_loading (path_str env file_path) e], Inr []))
   \<and> (path_exists env file_path = Inr True
        \<and> str_lower env (path_suffix env file_path) \<in> supported_extensions self
        \<and> choose_loader (str_lower env (path_suffix env file_path)) = Some loader
        \<and> loader_load env loader (path_str env file_path) = Inr documents
        \<and> list_all (\<lambda>doc. page_content doc = []) documents \<longrightarrow>
        load_single_document env self file_path
          = ([Loaded_chunks 0 (path_name env file_path)], Inr []))"
  by (simp add: load_single_document_def Let_def split_documents_empty_input)

theorem load_single_document_quiet_witness:
  "path_exists example_env (py ''notes.md'') = Inr True
   \<and> str_lower example_env (path_suffix example_env (py ''notes.md''))
       \<notin> supported_extensions (DocumentLoader_init 1000 200)
   \<and> load_single_document example_env (DocumentLoader_init 1000 200) (py ''notes.md'')
       = ([Unsupported_file_type (py ''.md'')], Inr [])
   \<and> path_exists example_env (py ''missing.txt'') = Inr False
   \<and> load_single_document example_env (DocumentLoader_init 1000 200) (py ''missing.txt'')
       = ([File_not_found (py ''missing.txt'')], Inr [])
   \<and> path_exists example_env (py ''broken.pdf'') = Inr True
   \<and> str_lower example_env (path_suffix example_env (py ''broken.pdf''))
       \<in> supported_extensions (DocumentLoader_init 1000 200)
   \<and> choose_loader (str_lower example_env (path_suffix example_env (py ''broken.pdf'')))
       = Some PyPDFLoader
   \<and> loader_load example_env PyPDFLoader (path_str example_env (py ''broken.pdf''))
       = Inl (Exn (py ''PdfReadError'') (py ''EOF marker not found''))
   \<and> load_single_document example_env (DocumentLoader_init 1000 200) (py ''broken.pdf'')
       = ([Error_loading (py ''broken.pdf'')
             (Exn (py ''PdfReadError'') (py ''EOF marker not found''))], Inr [])
   \<and> path_exists example_env (py ''empty.txt'') = Inr True
   \<and> str_lower example_env (path_suffix example_env (py ''empty.txt''))
       \<in> supported_extensions (DocumentLoader_init 1000 200)
   \<and> choose_loader (str_lower example_env (path_suffix example_env (py ''empty.txt'')))
       = Some TextLoader
   \<and> loader_load example_env TextLoader (path_str example_env (py ''empty.txt''))
       = Inr [\<lparr>page_content = [], metadata = []\<rparr>]
   \<and> list_all (\<lambda>doc. page_content doc = []) [\<lparr>page_content = [], metadata = []\<rparr>]
   \<and> load_single_document example_env (DocumentLoader_init 1000 200) (py ''empty.txt'')
       = ([Loaded_chunks 0 (py ''empty.txt'')], Inr [])"
  using load_single_document_quiet
          [of example_env "py ''notes.md''" "DocumentLoader_init 1000 200"]
        load_single_document_quiet
          [of example_env "py ''missing.txt''" "DocumentLoader_init 1000 200"]
        load_single_document_quiet
          [of example_env "py ''broken.pdf''" "DocumentLoader_init 1000 200" PyPDFLoader
              "Exn (py ''PdfReadError'') (py ''EOF marker not found'')"]
        load_single_document_quiet
          [of example_env "py ''empty.txt''" "DocumentLoader_init 1000 200" TextLoader _
              "[\<lparr>page_content = [], metadata = []\<rparr>]"]
  by (simp add: example_env_def DocumentLoader_init_def posix_suffix_def posix_name_def
        ascii_lower_def choose_loader_def py_def Let_def)

text \<open>
  A batch of two unsupported files and one text file: the chunks of the text file come
  back, and the other two are skipped with a warning each.
\<close>

lemma load_multiple_files_skips_unsupported:
  "load_multiple_files example_env (DocumentLoader_init 1000 200)
     [py ''notes.md'', py ''a.txt'', py ''SLIDES.PPTX'']
   = ([Unsupported_file_type (py ''.md''), Loaded_chunks 1 (py ''a.txt''),
       Unsupported_file_type (py ''.pptx'')],
      snd (load_single_document example_env (DocumentLoader_init 1000 200) (py ''a.txt'')))"
  by (simp add: load_single_document_def split_documents_def add_file_metadata_def
        example_env_def DocumentLoader_init_def posix_suffix_def posix_name_def ascii_lower_def
        choose_loader_def py_def Let_def)

text \<open>
  Claim C4 as stated fails: the existing file \<open>SLIDES.PPTX\<close> has an unsupported extension,
  and the call returns the empty list, as it does for unreadable input; nothing is raised.
\<close>

theorem unsupported_extension_counterexample:
  "path_exists example_env (py ''SLIDES.PPTX'') = Inr True
   \<and> str_lower example_env (path_suffix example_env (py ''SLIDES.PPTX''))
       \<notin> supported_extensions (DocumentLoader_init 1000 200)
   \<and> load_single_document example_env (DocumentLoader_init 1000 200) (py ''SLIDES.PPTX'')
       = ([Unsupported_file_type (py ''.pptx'')], Inr [])"
  by (simp add: load_single_document_def example_env_def DocumentLoader_init_def
        posix_suffix_def posix_name_def ascii_lower_def py_def Let_def)


section \<open>Properties of vector\_store\_manager.py\<close>

lemma example_session_eq:
  "example_session =
     \<lparr>manager = \<lparr>persist_directory = py ''./chroma_db'', collection_name = py ''qa_documents'',
                  embedding_model = py ''text-embedding-ada-002'',
                  vector_store = Some (py ''./chroma_db'', py ''qa_documents'')\<rparr>,
      world = \<lparr>embed = example_embed, embed_dimension = 2, store_available = True,
                databases = [py ''./chroma_db''],
                collections = [((py ''./chroma_db'', py ''qa_documents''),
                                \<lparr>records = [], dimension = 2, next_id = 0\<rparr>)]\<rparr>,
      logged = [Creating_new (py ''./chroma_db'')]\<rparr>"
  by (simp add: example_session_def VectorStoreManager_init_def initialize_vector_store_def
        vector_store_exists_def spec_chroma_def spec_mkdir_def spec_database_exists_def spec_open_def example_store_def)

lemma loaded_session_eq:
  "loaded_session =
     \<lparr>manager = \<lparr>persist_directory = py ''./chroma_db'', collection_name = py ''qa_documents'',
                  embedding_model = py ''text-embedding-ada-002'',
                  vector_store = Some (py ''./chroma_db'', py ''qa_documents'')\<rparr>,
      world = \<lparr>embed = example_embed, embed_dimension = 2, store_available = True,
                databases = [py ''./chroma_db''],
                collections = [((py ''./chroma_db'', py ''qa_documents''),
                                \<lparr>records = [\<lparr>record_id = 0, record_vector = [12, 105],
                                             record_chunk = chunk_ai\<rparr>,
                                           \<lparr>record_id = 1, record_vector = [8, 108],
                                             record_chunk = chunk_ml\<rparr>],
                                  dimension = 2, next_id = 2\<rparr>)]\<rparr>,
      logged = [Creating_new (py ''./chroma_db''), Adding_documents 2, Added_documents 2]\<rparr>"
  by (simp add: loaded_session_def example_session_eq add_documents_def spec_chroma_def
        spec_add_def embed_text_def example_embed_def chunk_ai_def chunk_ml_def py_def upt_rec)

lemma VectorStoreManager_init_initialized:
  "VectorStoreManager_init spec_chroma w dir name model = (Inr (), s) \<Longrightarrow> initialized s"
  by (auto simp add: VectorStoreManager_init_def initialize_vector_store_def
        vector_store_exists_def spec_chroma_def
        spec_mkdir_def spec_open_def initialized_def Let_def split: if_splits option.splits)

lemma add_documents_manager:
  "manager (snd (add_documents lib s documents)) = manager s"
  by (simp add: add_documents_def split: option.splits prod.splits sum.splits)

lemma get_collection_info_falsy:
  assumes "vector_store (manager s) = Some h" and "\<not> truth_value lib (world s) h"
  shows "fst (get_collection_info lib s) = Inr (Info_error (py ''Vector store not initialized''))"
  using assms by (simp add: get_collection_info_def)

lemma embed_all_fails:
  "\<exists>chunk \<in> set chunks. embedding_fails w chunk \<Longrightarrow>
   \<exists>e. embed_all w chunks = Inl e \<and> exn_class e = py ''EmbeddingError''"
proof (induction chunks)
  case Nil
  then show ?case by simp
next
  case (Cons chunk chunks)
  show ?case
  proof (cases "embed_text w (page_content chunk)")
    case (Inl e)
    then have "exn_class e = py ''EmbeddingError''"
      by (auto simp add: embed_text_def split: sum.splits if_splits)
    with Inl show ?thesis by simp
  next
    case (Inr v)
    then have "\<not> embedding_fails w chunk"
      by (auto simp add: embed_text_def embedding_fails_def split: sum.splits if_splits)
    with Cons.prems have "\<exists>c \<in> set chunks. embedding_fails w c" by simp
    from Cons.IH [OF this] Inr show ?thesis by auto
  qed
qed

text \<open>
  Claim C5. On the store of the spec, if the embedding provider is unreachable for a chunk
  of the batch or returns a vector of the wrong dimension for it, \<open>add_documents\<close> raises
  an \<open>EmbeddingError\<close> (the store's exception, logged and raised again) and the outside
  is as before the call: no record of the batch is in the collection. The manager object
  is unchanged too.
\<close>

theorem add_documents_all_or_nothing:
  assumes "vector_store (manager s) = Some h"
    and "\<exists>chunk \<in> set chunks. embedding_fails (world s) chunk"
  shows "(\<exists>e. fst (add_documents spec_chroma s chunks) = Inl e
             \<and> exn_class e = py ''EmbeddingError'')
       \<and> world (snd (add_documents spec_chroma s chunks)) = world s
       \<and> manager (snd (add_documents spec_chroma s chunks)) = manager s"
proof -
  from assms(2) have ne: "chunks \<noteq> []" by auto
  from embed_all_fails [OF assms(2)] obtain e
    where e: "embed_all (world s) chunks = Inl e" "exn_class e = py ''EmbeddingError''"
    by blast
  have "spec_add (world s) h chunks = (Inl e, world s)"
    by (simp add: spec_add_def e)
  with ne assms(1) e(2) show ?thesis
    by (simp add: add_documents_def spec_chroma_def)
qed
theorem add_documents_all_or_nothing_witness:
  "vector_store (manager example_session) = Some (py ''./chroma_db'', py ''qa_documents'')
   \<and> (\<exists>chunk \<in> set [chunk_ai, bad_chunk]. embedding_fails (world example_session) chunk)
   \<and> fst (add_documents spec_chroma example_session [chunk_ai, bad_chunk])
       = Inl (Exn (py ''EmbeddingError'') (py ''wrong dimensionality''))
   \<and> world (snd (add_documents spec_chroma example_session [chunk_ai, bad_chunk]))
       = world example_session"
proof -
  have h1: "vector_store (manager example_session) = Some (py ''./chroma_db'', py ''qa_documents'')"
    by (simp add: example_session_eq)
  have h2: "\<exists>chunk \<in> set [chunk_ai, bad_chunk]. embedding_fails (world example_session) chunk"
    by (simp add: example_session_eq embedding_fails_def bad_chunk_def example_embed_def py_def)
  have run: "fst (add_documents spec_chroma example_session [chunk_ai, bad_chunk])
       = Inl (Exn (py ''EmbeddingError'') (py ''wrong dimensionality''))"
    by (simp add: example_session_eq add_documents_def spec_chroma_def spec_add_def
          embed_text_def example_embed_def chunk_ai_def bad_chunk_def py_def)
  from add_documents_all_or_nothing [OF h1 h2] h1 h2 run show ?thesis by simp
qed

lemma similarity_search_frame:
  "manager (snd (similarity_search lib s query k flt)) = manager s
   \<and> world (snd (similarity_search lib s query k flt)) = world s"
  by (simp add: similarity_search_def split: option.splits sum.splits)

text \<open>
  Claim C6, as the code has it. When the search of the store raises (the embedding provider
  failed, say), \<open>similarity_search\<close> logs the error and returns the empty list: nothing is
  raised, and the returned value is the one of a search that found nothing. Only the log
  tells the two apart.
\<close>

theorem similarity_search_failure_is_empty:
  assumes "vector_store (manager s) = Some h"
    and "truth_value lib (world s) h"
    and "store_similarity_search lib (world s) h query k (passed_filter flt) = Inl e"
  shows "similarity_search lib s query k flt
         = (Inr [], s\<lparr>logged := logged s @ [Error_searching e]\<rparr>)"
  using assms by (simp add: similarity_search_def)

theorem similarity_search_failure_is_empty_witness:
  "vector_store (manager loaded_session) = Some (py ''./chroma_db'', py ''qa_documents'')
   \<and> truth_value spec_chroma (world loaded_session) (py ''./chroma_db'', py ''qa_documents'')
   \<and> store_similarity_search spec_chroma (world loaded_session)
        (py ''./chroma_db'', py ''qa_documents'') (py ''down'') 4 (passed_filter None)
       = Inl (Exn (py ''EmbeddingError'') (py ''Connection error.''))
   \<and> similarity_search spec_chroma loaded_session (py ''down'') 4 None
       = (Inr [], loaded_session\<lparr>logged := logged loaded_session
              @ [Error_searching (Exn (py ''EmbeddingError'') (py ''Connection error.''))]\<rparr>)"
proof -
  have h1: "vector_store (manager loaded_session) = Some (py ''./chroma_db'', py ''qa_documents'')"
    by (simp add: loaded_session_eq)
  have h2: "truth_value spec_chroma (world loaded_session) (py ''./chroma_db'', py ''qa_documents'')"
    by (simp add: spec_chroma_def)
  have h3: "store_similarity_search spec_chroma (world loaded_session)
        (py ''./chroma_db'', py ''qa_documents'') (py ''down'') 4 (passed_filter None)
       = Inl (Exn (py ''EmbeddingError'') (py ''Connection error.''))"
    by (simp add: loaded_session_eq spec_chroma_def spec_search_def embed_text_def
          example_embed_def passed_filter_def)
  from similarity_search_failure_is_empty [OF h1 h2 h3] h1 h2 h3 show ?thesis by simp
qed

text \<open>
  Claim C6 as stated fails: with two chunks stored and the provider unreachable for the
  query, the store's search raises, and \<open>similarity_search\<close> returns the empty list, the
  same value as a search over the empty collection.
\<close>

theorem similarity_search_silent_counterexample:
  "store_similarity_search spec_chroma (world loaded_session)
        (py ''./chroma_db'', py ''qa_documents'') (py ''down'') 4 None
       = Inl (Exn (py ''EmbeddingError'') (py ''Connection error.''))
   \<and> fst (similarity_search spec_chroma loaded_session (py ''down'') 4 None) = Inr []
   \<and> fst (similarity_search spec_chroma example_session (py ''learn'') 4 None) = Inr []"
  by (simp add: loaded_session_eq example_session_eq similarity_search_def spec_chroma_def
        spec_search_def embed_text_def example_embed_def passed_filter_def py_def)

lemma delete_collection_spec:
  assumes "initialized s" and "store_available (world s)"
  shows "delete_collection spec_chroma s =
     (Inr (),
      s\<lparr>manager := (manager s)\<lparr>vector_store :=
            Some (persist_directory (manager s), collection_name (manager s))\<rparr>,
        world := (world s)\<lparr>databases := List.insert (persist_directory (manager s))
                                          (databases (world s)),
                  collections :=
                    AList.update (persist_directory (manager s), collection_name (manager s))
                      \<lparr>records = [], dimension = embed_dimension (world s), next_id = 0\<rparr>
                      (AList.delete (persist_directory (manager s), collection_name (manager s))
                         (collections (world s)))\<rparr>,
        logged := logged s @ [Deleted_collection (collection_name (manager s)),
           if persist_directory (manager s) \<in> set (databases (world s))
           then Loading_existing (persist_directory (manager s))
           else Creating_new (persist_directory (manager s))]\<rparr>)"
  using assms
  by (simp add: initialized_def delete_collection_def delete_if_present_def
        initialize_vector_store_def vector_store_exists_def spec_chroma_def spec_delete_def
        spec_mkdir_def
        spec_open_def spec_database_exists_def delete_conv' Let_def)

lemma delete_collection_unavailable:
  assumes "initialized s" and "\<not> store_available (world s)"
  shows "\<exists>e. fst (delete_collection spec_chroma s) = Inl e"
  using assms
  by (simp add: initialized_def delete_collection_def delete_if_present_def
        initialize_vector_store_def vector_store_exists_def spec_chroma_def spec_delete_def
        spec_mkdir_def
        spec_open_def Let_def)

lemma search_empty_collection:
  assumes "vector_store (manager s) = Some h"
    and "map_of (collections (world s)) h = Some c" and "records c = []"
  shows "fst (similarity_search spec_chroma s query k flt) = Inr []"
  using assms
  by (simp add: similarity_search_def spec_chroma_def spec_search_def
        split: sum.splits)

text \<open>
  Claim C7. On the store of the spec, when \<open>delete_collection\<close> of an initialized manager
  completes, \<open>get_collection_info\<close> reports 0 documents, every search (any query, any
  \<open>k\<close>, any filter) returns the empty list, and the manager is initialized again on a
  collection that exists and is empty. A search changes neither the manager nor the
  outside (\<open>similarity_search_frame\<close>), so the same holds after any number of searches.
  All this rests on a store object being true in \<open>if not self.vector_store\<close>;
  \<open>get_collection_info_falsy\<close> is what happens otherwise.
\<close>

theorem delete_collection_leaves_empty_collection:
  assumes "initialized s"
    and "fst (delete_collection spec_chroma s) = Inr ()"
  shows "fst (get_collection_info spec_chroma (snd (delete_collection spec_chroma s)))
           = Inr (Info (collection_name (manager s)) 0 (persist_directory (manager s)))
       \<and> (\<forall>query k flt.
             fst (similarity_search spec_chroma (snd (delete_collection spec_chroma s)) query k flt)
               = Inr [])
       \<and> initialized (snd (delete_collection spec_chroma s))
       \<and> map_of (collections (world (snd (delete_collection spec_chroma s))))
             (persist_directory (manager s), collection_name (manager s))
           = Some \<lparr>records = [], dimension = embed_dimension (world s), next_id = 0\<rparr>"
proof -
  define s' where "s' = snd (delete_collection spec_chroma s)"
  have avail: "store_available (world s)"
    using delete_collection_unavailable [OF assms(1)] assms(2) by auto
  note run = delete_collection_spec [OF assms(1) avail]
  have mgr: "vector_store (manager s')
               = Some (persist_directory (manager s), collection_name (manager s))"
    "collection_name (manager s') = collection_name (manager s)"
    "persist_directory (manager s') = persist_directory (manager s)"
    by (simp_all add: s'_def run)
  have stored: "map_of (collections (world s'))
             (persist_directory (manager s), collection_name (manager s))
           = Some \<lparr>records = [], dimension = embed_dimension (world s), next_id = 0\<rparr>"
    by (simp add: s'_def run update_conv')
  have init: "initialized s'"
    by (simp add: initialized_def mgr)
  have info: "fst (get_collection_info spec_chroma s')
           = Inr (Info (collection_name (manager s)) 0 (persist_directory (manager s)))"
    by (simp add: get_collection_info_def spec_chroma_def spec_count_def mgr stored)
  have search: "fst (similarity_search spec_chroma s' query k flt) = Inr []" for query k flt
    by (rule search_empty_collection [OF mgr(1) stored]) simp
  from info search init stored show ?thesis
    unfolding s'_def by blast
qed

theorem delete_collection_leaves_empty_collection_witness:
  "initialized loaded_session
   \<and> fst (delete_collection spec_chroma loaded_session) = Inr ()
   \<and> fst (get_collection_info spec_chroma loaded_session)
       = Inr (Info (py ''qa_documents'') 2 (py ''./chroma_db''))
   \<and> fst (get_collection_info spec_chroma (snd (delete_collection spec_chroma loaded_session)))
       = Inr (Info (py ''qa_documents'') 0 (py ''./chroma_db''))
   \<and> fst (similarity_search spec_chroma loaded_session (py ''learn'') 1 None) = Inr [chunk_ml]
   \<and> fst (similarity_search spec_chroma (snd (delete_collection spec_chroma loaded_session))
            (py ''learn'') 1 None) = Inr []"
proof -
  have h1: "initialized loaded_session"
    by (simp add: initialized_def loaded_session_eq)
  have h2: "fst (delete_collection spec_chroma loaded_session) = Inr ()"
    using delete_collection_spec [OF h1] by (simp add: loaded_session_eq)
  have before: "fst (get_collection_info spec_chroma loaded_session)
       = Inr (Info (py ''qa_documents'') 2 (py ''./chroma_db''))"
    by (simp add: loaded_session_eq get_collection_info_def spec_chroma_def spec_count_def)
  have found: "fst (similarity_search spec_chroma loaded_session (py ''learn'') 1 None)
       = Inr [chunk_ml]"
    by (simp add: loaded_session_eq similarity_search_def spec_chroma_def spec_search_def
          embed_text_def example_embed_def passed_filter_def matches_filter_def similarity_def
          py_def)
  from delete_collection_leaves_empty_collection [OF h1 h2]
  have "fst (get_collection_info spec_chroma (snd (delete_collection spec_chroma loaded_session)))
       = Inr (Info (py ''qa_documents'') 0 (py ''./chroma_db''))"
    and "fst (similarity_search spec_chroma (snd (delete_collection spec_chroma loaded_session))
            (py ''learn'') 1 None) = Inr []"
    by (simp_all add: loaded_session_eq)
  with h1 h2 before found show ?thesis by simp
qed

end
